theory Spec2Isabelle
  imports Complex_Main
begin

section \<open>Quality rating engine: data model\<close>

text \<open>
  The engine of \<^verbatim>\<open>metrics/quality_rating.py\<close> works on two dictionaries produced by the
  report parsers. A dictionary is an association list from key strings to Python values
  (lookup takes the first binding of a key). Python's \<^verbatim>\<open>int\<close> is \<open>int\<close>. Python's
  \<^verbatim>\<open>float\<close> is modelled by the exact reals: an arithmetic result is the mathematical
  value of the source expression, where the program holds a double close to it, and
  there are no infinities and no NaN. So a result of the model and of the program can
  differ in the last digits (a weighted score of exactly 80 against 79.99999999999999),
  and with it a printed digit or the band of a score that lies that close to a bound.
  What the program raises is modelled as it is: in particular the OverflowError of a
  division whose integer operand or whose integer quotient lies beyond the double range.
  Strings are byte lists holding the UTF-8 encoding of the source's text. A value that is
  neither a number, a string nor a list of strings (the per-test and per-package lists of
  the parsers) is \<open>POther\<close>.
\<close>

datatype pyval =
    PInt int
  | PFloat real
  | PStr string
  | PStrs "string list"
  | POther

type_synonym pydict = "(string \<times> pyval) list"

datatype error = TypeError | KeyError | ValueError | OverflowError | ZeroDivisionError

text \<open>\<^verbatim>\<open>d.get(key, default)\<close>\<close>

definition dict_get :: "pydict \<Rightarrow> string \<Rightarrow> pyval \<Rightarrow> pyval" where
  "dict_get d k dflt = (case map_of d k of None \<Rightarrow> dflt | Some v \<Rightarrow> v)"

text \<open>\<^verbatim>\<open>d[key]\<close>, which raises KeyError on a missing key.\<close>

definition dict_item :: "pydict \<Rightarrow> string \<Rightarrow> error + pyval" where
  "dict_item d k = (case map_of d k of None \<Rightarrow> Inl KeyError | Some v \<Rightarrow> Inr v)"

text \<open>\<^verbatim>\<open>not data\<close> for an optional dictionary: true for None and for the empty dictionary.\<close>

definition py_not :: "pydict option \<Rightarrow> bool" where
  "py_not data = (case data of None \<Rightarrow> True | Some d \<Rightarrow> d = [])"

text \<open>\<^verbatim>\<open>v == 0\<close>: a value that is not a number is never equal to 0.\<close>

fun py_eq_zero :: "pyval \<Rightarrow> bool" where
  "py_eq_zero (PInt i) = (i = 0)"
| "py_eq_zero (PFloat x) = (x = 0)"
| "py_eq_zero _ = False"

text \<open>The numeric value of an operand of \<^verbatim>\<open>+\<close>, \<^verbatim>\<open>*\<close>, \<^verbatim>\<open>/\<close> with a number on the
  other side; any other operand makes the source expressions below raise TypeError.\<close>

fun py_num :: "pyval \<Rightarrow> real option" where
  "py_num (PInt i) = Some (of_int i)"
| "py_num (PFloat x) = Some x"
| "py_num _ = None"

text \<open>
  True division \<^verbatim>\<open>a / b\<close>. An \<^verbatim>\<open>int\<close> operand beside a \<^verbatim>\<open>float\<close> is first converted
  to a double, which raises OverflowError when the integer rounds to \<open>2 ^ 1024\<close> or
  beyond, that is from \<open>2 ^ 1024 - 2 ^ 970\<close> on (half-way between the largest double and
  \<open>2 ^ 1024\<close>). The quotient of two \<^verbatim>\<open>int\<close>s is computed from the integers and raises
  OverflowError when the quotient itself reaches that bound. A zero divisor raises
  ZeroDivisionError, an operand that is not a number TypeError.
\<close>

definition DBL_LIMIT :: real where
  "DBL_LIMIT = 2 ^ 1024 - 2 ^ 970"

fun py_truediv :: "pyval \<Rightarrow> pyval \<Rightarrow> error + real" where
  "py_truediv (PInt a) (PInt b) =
     (if b = 0 then Inl ZeroDivisionError
      else if DBL_LIMIT \<le> \<bar>of_int a / of_int b\<bar> then Inl OverflowError
      else Inr (of_int a / of_int b))"
| "py_truediv (PInt a) (PFloat y) =
     (if DBL_LIMIT \<le> \<bar>of_int a\<bar> then Inl OverflowError
      else if y = 0 then Inl ZeroDivisionError
      else Inr (of_int a / y))"
| "py_truediv (PFloat x) (PInt b) =
     (if DBL_LIMIT \<le> \<bar>of_int b\<bar> then Inl OverflowError
      else if b = 0 then Inl ZeroDivisionError
      else Inr (x / of_int b))"
| "py_truediv (PFloat x) (PFloat y) =
     (if y = 0 then Inl ZeroDivisionError else Inr (x / y))"
| "py_truediv _ _ = Inl TypeError"

text \<open>\<^verbatim>\<open>v > 0\<close> for a number.\<close>

fun py_pos :: "pyval \<Rightarrow> bool" where
  "py_pos (PInt i) = (0 < i)"
| "py_pos (PFloat x) = (0 < x)"
| "py_pos _ = False"

record calculator =
  junit_data :: "pydict option"
  jacoco_data :: "pydict option"

subsection \<open>Fixed-point formatting\<close>

text \<open>
  \<^verbatim>\<open>f"{x:.2f}"\<close> prints the decimal numeral with the given number of fraction digits that
  is nearest to the value, ties going to the even last digit. The program prints the
  double it holds, the model the exact value: where the exact value is a tie or within
  rounding distance of one, the last printed digit can differ (the exact 1/20000 prints
  as 0.0000 with four digits, the double nearest to it as 0.0001).
\<close>

definition round_half_even :: "real \<Rightarrow> int" where
  "round_half_even x =
     (let f = \<lfloor>x\<rfloor>; r = x - of_int f
      in if r < 1 / 2 then f else if 1 / 2 < r then f + 1 else if even f then f else f + 1)"

definition digit_char :: "nat \<Rightarrow> char" where
  "digit_char d = ''0123456789'' ! (d mod 10)"

fun digits_of :: "nat \<Rightarrow> string" where
  "digits_of n = (if n < 10 then [digit_char n] else digits_of (n div 10) @ [digit_char (n mod 10)])"

declare digits_of.simps [simp del]

definition pad_zeros :: "nat \<Rightarrow> string \<Rightarrow> string" where
  "pad_zeros p s = replicate (p - length s) (CHR ''0'') @ s"

definition fmt_f :: "nat \<Rightarrow> real \<Rightarrow> string" where
  "fmt_f p x =
     (let n = nat (round_half_even (\<bar>x\<bar> * 10 ^ p)); ip = n div 10 ^ p; fp = n mod 10 ^ p
      in (if x < 0 then ''-'' else '''') @ digits_of ip @
         (if p = 0 then '''' else ''.'' @ pad_zeros p (digits_of fp)))"

definition int_str :: "int \<Rightarrow> string" where
  "int_str i = (if i < 0 then ''-'' else '''') @ digits_of (nat \<bar>i\<bar>)"

text \<open>
  \<^verbatim>\<open>str(x)\<close> of a float, for the exact value: the shortest decimal numeral with at least
  one fraction digit that denotes the value, looked for up to 16 fraction digits (the
  nearest one with 16 digits otherwise). The source prints this way only the constants
  0.6, 0.4 and 0.5 and the three weights times 100.
\<close>

fun float_str_from :: "nat \<Rightarrow> nat \<Rightarrow> real \<Rightarrow> string" where
  "float_str_from 0 p x = fmt_f p x"
| "float_str_from (Suc k) p x =
     (if of_int (round_half_even (x * 10 ^ p)) = x * 10 ^ p then fmt_f p x
      else float_str_from k (Suc p) x)"

definition py_float_str :: "real \<Rightarrow> string" where
  "py_float_str x = float_str_from 15 1 x"

text \<open>The multiplication sign U+00D7 of the formula strings, in UTF-8.\<close>

definition times_sign :: string where
  "times_sign = [CHR 0xC3, CHR 0x97]"

section \<open>The three scorers\<close>

definition WEIGHT_RELIABILITY :: real where "WEIGHT_RELIABILITY = 0.40"
definition WEIGHT_MAINTAINABILITY :: real where "WEIGHT_MAINTAINABILITY = 0.40"
definition WEIGHT_PERFORMANCE :: real where "WEIGHT_PERFORMANCE = 0.20"
definition PERFORMANCE_THRESHOLD :: real where "PERFORMANCE_THRESHOLD = 0.5"

definition calculate_reliability_score :: "calculator \<Rightarrow> error + (real \<times> pydict)" where
  "calculate_reliability_score self =
     (if py_not (junit_data self) then Inr (0.0, [(''error'', PStr ''No JUnit data available'')])
      else
        let d = the (junit_data self);
            total_tests = dict_get d ''total_tests'' (PInt 0)
        in if py_eq_zero total_tests then Inr (0.0, [(''error'', PStr ''No tests executed'')])
           else
             let failures = dict_get d ''failures'' (PInt 0);
                 errors = dict_get d ''errors'' (PInt 0)
             in case (py_num failures, py_num errors, py_num total_tests) of
                  (Some f, Some e, Some t) \<Rightarrow>
                    let fault_density = (f + e) / t;
                        reliability_score = (1 - fault_density) * 100
                    in Inr (reliability_score,
                         [(''total_tests'', total_tests),
                          (''failures'', failures),
                          (''errors'', errors),
                          (''fault_density'', PFloat (fault_density * 100)),
                          (''formula'', PStr (''RS = (1 - FD) '' @ times_sign @ '' 100'')),
                          (''standard'', PStr ''IEEE Std 982.1-1988, Section 3.5.1''),
                          (''calculation'', PStr (''RS = (1 - '' @ fmt_f 4 fault_density @ '') '' @
                              times_sign @ '' 100 = '' @ fmt_f 2 reliability_score))])
                | _ \<Rightarrow> Inl TypeError)"

definition calculate_maintainability_score :: "calculator \<Rightarrow> error + (real \<times> pydict)" where
  "calculate_maintainability_score self =
     (if py_not (jacoco_data self) then Inr (0.0, [(''error'', PStr ''No JaCoCo data available'')])
      else
        let d = the (jacoco_data self);
            line_coverage = dict_get d ''line_coverage'' (PInt 0);
            branch_coverage = dict_get d ''branch_coverage'' (PInt 0);
            w_line = 0.6;
            w_branch = 0.4
        in case (py_num line_coverage, py_num branch_coverage) of
             (Some lc, Some bc) \<Rightarrow>
               let maintainability_score = (w_line * lc) + (w_branch * bc)
               in Inr (maintainability_score,
                    [(''line_coverage'', line_coverage),
                     (''branch_coverage'', branch_coverage),
                     (''lines_covered'', dict_get d ''lines_covered'' (PInt 0)),
                     (''lines_total'', dict_get d ''lines_total'' (PInt 0)),
                     (''branches_covered'', dict_get d ''branches_covered'' (PInt 0)),
                     (''branches_total'', dict_get d ''branches_total'' (PInt 0)),
                     (''formula'', PStr (''MS = ('' @ py_float_str w_line @ '' '' @ times_sign @
                         '' LC) + ('' @ py_float_str w_branch @ '' '' @ times_sign @ '' BC)'')),
                     (''standards'', PStrs [''ISO/IEC 25010:2011, Section 4.2.6'',
                                            ''IEEE Std 829-2008, Section 5.3'',
                                            ''IEEE Std 1061-1998, Section 3.2.2'']),
                     (''calculation'', PStr (''MS = ('' @ py_float_str w_line @ '' '' @
                         times_sign @ '' '' @ fmt_f 2 lc @ '') + ('' @ py_float_str w_branch @
                         '' '' @ times_sign @ '' '' @ fmt_f 2 bc @ '') = '' @
                         fmt_f 2 maintainability_score))])
           | _ \<Rightarrow> Inl TypeError)"

text \<open>
  The performance scorer divides twice: \<^verbatim>\<open>total_time / total_tests\<close> for the average
  test time and, when the time is positive, \<^verbatim>\<open>total_tests / total_time\<close> for the
  throughput. Either division can raise. (The other two scorers divide and multiply too;
  on summaries that satisfy the data-model invariants their operations stay in range:
  the fault density is a quotient of integers that is at most 1, and the coverages are at
  most 100.)
\<close>

definition calculate_performance_score :: "calculator \<Rightarrow> error + (real \<times> pydict)" where
  "calculate_performance_score self =
     (if py_not (junit_data self) then Inr (0.0, [(''error'', PStr ''No JUnit data available'')])
      else
        let d = the (junit_data self);
            total_time = dict_get d ''execution_time'' (PInt 0);
            total_tests = dict_get d ''total_tests'' (PInt 0)
        in if py_eq_zero total_tests \<or> py_eq_zero total_time
           then Inr (100.0, [(''note'', PStr ''No performance data, assuming optimal'')])
           else
             case py_truediv total_time total_tests of
               Inl e \<Rightarrow> Inl e
             | Inr avg_test_time \<Rightarrow>
                 let performance_score =
                       (if avg_test_time \<le> PERFORMANCE_THRESHOLD then 100.0
                        else min 100 ((PERFORMANCE_THRESHOLD / avg_test_time) * 100))
                 in case (if py_pos total_time
                          then map_sum id PFloat (py_truediv total_tests total_time)
                          else Inr (PInt 0)) of
                      Inl e \<Rightarrow> Inl e
                    | Inr throughput \<Rightarrow>
                        Inr (performance_score,
                          [(''total_execution_time'', total_time),
                           (''total_tests'', total_tests),
                           (''avg_test_time'', PFloat avg_test_time),
                           (''threshold_time'', PFloat PERFORMANCE_THRESHOLD),
                           (''throughput'', throughput),
                           (''formula'', PStr (''PS = min(100, (Threshold / Avg_Time) '' @
                               times_sign @ '' 100)'')),
                           (''standard'', PStr ''ISO/IEC 25010:2011, Section 4.2.1''),
                           (''calculation'', PStr (''PS = min(100, ('' @
                               py_float_str PERFORMANCE_THRESHOLD @ '' / '' @
                               fmt_f 4 avg_test_time @ '') '' @ times_sign @ '' 100) = '' @
                               fmt_f 2 performance_score))]))"

text \<open>The runs on which neither division of the performance scorer overflows.\<close>

definition division_overflows :: "pyval \<Rightarrow> pyval \<Rightarrow> bool" where
  "division_overflows a b = (py_truediv a b = Inl OverflowError)"

definition performance_divisions_fit :: "pydict \<Rightarrow> bool" where
  "performance_divisions_fit d =
     (\<not> division_overflows (dict_get d ''execution_time'' (PInt 0))
                             (dict_get d ''total_tests'' (PInt 0)) \<and>
      \<not> division_overflows (dict_get d ''total_tests'' (PInt 0))
                             (dict_get d ''execution_time'' (PInt 0)))"


section \<open>Rating bands and the weighted quality score\<close>

text \<open>\<^verbatim>\<open>RATING_RANGES\<close> and \<^verbatim>\<open>RATING_COLORS\<close>, in the order the source writes them
  (a dictionary iterates in insertion order).\<close>

definition RATING_RANGES :: "(string \<times> (real \<times> real)) list" where
  "RATING_RANGES =
     [(''A'', (90, 100)),
      (''B'', (80, 89)),
      (''C'', (70, 79)),
      (''D'', (60, 69)),
      (''E'', (0, 59))]"

definition RATING_COLORS :: "(string \<times> string) list" where
  "RATING_COLORS =
     [(''A'', ''#28a745''),
      (''B'', ''#5cb85c''),
      (''C'', ''#ffc107''),
      (''D'', ''#fd7e14''),
      (''E'', ''#dc3545'')]"

text \<open>The loop of \<^verbatim>\<open>_get_rating\<close> over the items of a range table: the first band that
  contains the score is returned, and \<^verbatim>\<open>'E'\<close> when the loop ends without a match.\<close>

fun rating_loop :: "(string \<times> (real \<times> real)) list \<Rightarrow> real \<Rightarrow> string" where
  "rating_loop [] wqs = ''E''"
| "rating_loop ((rating, (min_score, max_score)) # rest) wqs =
     (if min_score \<le> wqs \<and> wqs \<le> max_score then rating else rating_loop rest wqs)"

definition get_rating :: "real \<Rightarrow> string" where
  "get_rating wqs = rating_loop RATING_RANGES wqs"

record 'a per_factor =
  reliability :: 'a
  maintainability :: 'a
  performance :: 'a

record wqs_details =
  weighted_quality_score :: real
  rating :: string
  rating_color :: string
  weights :: "real per_factor"
  scores :: "real per_factor"
  details :: "pydict per_factor"
  formula :: string
  standard :: string
  calculation :: string

definition calculate_weighted_quality_score :: "calculator \<Rightarrow> error + (real \<times> wqs_details)" where
  "calculate_weighted_quality_score self =
     (case calculate_reliability_score self of
        Inl e \<Rightarrow> Inl e
      | Inr (reliability_score, rel_details) \<Rightarrow>
     (case calculate_maintainability_score self of
        Inl e \<Rightarrow> Inl e
      | Inr (maintainability_score, maint_details) \<Rightarrow>
     (case calculate_performance_score self of
        Inl e \<Rightarrow> Inl e
      | Inr (performance_score, perf_details) \<Rightarrow>
          let wqs = (WEIGHT_RELIABILITY * reliability_score) +
                    (WEIGHT_MAINTAINABILITY * maintainability_score) +
                    (WEIGHT_PERFORMANCE * performance_score);
              rating_letter = get_rating wqs
          in case map_of RATING_COLORS rating_letter of
               None \<Rightarrow> Inl KeyError
             | Some color \<Rightarrow>
                 Inr (wqs,
                   \<lparr> weighted_quality_score = wqs,
                     rating = rating_letter,
                     rating_color = color,
                     weights = \<lparr> reliability = WEIGHT_RELIABILITY,
                                 maintainability = WEIGHT_MAINTAINABILITY,
                                 performance = WEIGHT_PERFORMANCE \<rparr>,
                     scores = \<lparr> reliability = reliability_score,
                                maintainability = maintainability_score,
                                performance = performance_score \<rparr>,
                     details = \<lparr> reliability = rel_details,
                                 maintainability = maint_details,
                                 performance = perf_details \<rparr>,
                     formula = ''WQS = (0.40 '' @ times_sign @ '' RS) + (0.40 '' @ times_sign @
                                 '' MS) + (0.20 '' @ times_sign @ '' PS)'',
                     standard = ''ISO/IEC 25010:2011, Section 4.1'',
                     calculation = ''WQS = (0.40 '' @ times_sign @ '' '' @ fmt_f 2 reliability_score @
                                 '') + (0.40 '' @ times_sign @ '' '' @ fmt_f 2 maintainability_score @
                                 '') + (0.20 '' @ times_sign @ '' '' @ fmt_f 2 performance_score @
                                 '') = '' @ fmt_f 2 wqs \<rparr>))))"

record QualityMetrics =
  qm_reliability_score :: real
  qm_maintainability_score :: real
  qm_performance_score :: real
  qm_weighted_quality_score :: real
  qm_rating :: string
  qm_rating_color :: string

definition get_quality_metrics :: "calculator \<Rightarrow> error + QualityMetrics" where
  "get_quality_metrics self =
     (case calculate_reliability_score self of
        Inl e \<Rightarrow> Inl e
      | Inr (rs, _) \<Rightarrow>
     (case calculate_maintainability_score self of
        Inl e \<Rightarrow> Inl e
      | Inr (ms, _) \<Rightarrow>
     (case calculate_performance_score self of
        Inl e \<Rightarrow> Inl e
      | Inr (ps, _) \<Rightarrow>
     (case calculate_weighted_quality_score self of
        Inl e \<Rightarrow> Inl e
      | Inr (wqs, dt) \<Rightarrow>
          Inr \<lparr> qm_reliability_score = rs,
                qm_maintainability_score = ms,
                qm_performance_score = ps,
                qm_weighted_quality_score = wqs,
                qm_rating = rating dt,
                qm_rating_color = rating_color dt \<rparr>))))"

text \<open>\<^verbatim>\<open>MaintainabilityMetrics.get_testability_score\<close> of
  \<^verbatim>\<open>metrics/maintainability_metrics.py\<close>, the sibling of the maintainability scorer.\<close>

definition get_testability_score :: "pydict \<Rightarrow> error + real" where
  "get_testability_score jacoco =
     (let line_cov = dict_get jacoco ''line_coverage'' (PInt 0);
          branch_cov = dict_get jacoco ''branch_coverage'' (PInt 0)
      in case (py_num line_cov, py_num branch_cov) of
           (Some lc, Some bc) \<Rightarrow> Inr ((lc * 0.6) + (bc * 0.4))
         | _ \<Rightarrow> Inl TypeError)"

section \<open>Reading results, input invariants and sample inputs\<close>

text \<open>The score of a scorer's result (None when it raised).\<close>

definition score_of :: "error + (real \<times> 'a) \<Rightarrow> real option" where
  "score_of r = (case r of Inl e \<Rightarrow> None | Inr (s, d) \<Rightarrow> Some s)"

text \<open>The score, the three component scores and the letter of a weighted result.\<close>

definition summary :: "error + (real \<times> wqs_details) \<Rightarrow> error + (real \<times> real per_factor \<times> string)" where
  "summary r = (case r of Inl e \<Rightarrow> Inl e | Inr (w, dt) \<Rightarrow> Inr (w, scores dt, rating dt))"








text \<open>Sample inputs: the run and coverage of the specification's worked scenario, a run
  that executed no test, a coverage record without its percentage fields, a run without
  faults whose average test time is twice the threshold, a run whose average test time is
  the threshold, and full coverage.\<close>

definition sample_run :: pydict where
  "sample_run =
     [(''total_tests'', PInt 100), (''passed'', PInt 95), (''failures'', PInt 3),
      (''errors'', PInt 2), (''skipped'', PInt 0), (''execution_time'', PFloat 45.0)]"

definition sample_cov :: pydict where
  "sample_cov = [(''line_coverage'', PInt 85), (''branch_coverage'', PInt 70)]"

definition sample_calc :: calculator where
  "sample_calc = \<lparr> junit_data = Some sample_run, jacoco_data = Some sample_cov \<rparr>"

definition empty_run :: pydict where
  "empty_run =
     [(''total_tests'', PInt 0), (''passed'', PInt 0), (''failures'', PInt 0),
      (''errors'', PInt 0), (''skipped'', PInt 0), (''execution_time'', PFloat 0.0)]"

definition counts_only_cov :: pydict where
  "counts_only_cov = [(''lines_covered'', PInt 7), (''lines_total'', PInt 10)]"

definition clean_run :: pydict where
  "clean_run =
     [(''total_tests'', PInt 10), (''passed'', PInt 10), (''failures'', PInt 0),
      (''errors'', PInt 0), (''skipped'', PInt 0), (''execution_time'', PFloat 10.0)]"

definition boundary_run :: pydict where
  "boundary_run =
     [(''total_tests'', PInt 10), (''passed'', PInt 10), (''failures'', PInt 0),
      (''errors'', PInt 0), (''skipped'', PInt 0), (''execution_time'', PFloat 5.0)]"

definition full_cov :: pydict where
  "full_cov = [(''line_coverage'', PFloat 100.0), (''branch_coverage'', PFloat 100.0)]"

section \<open>Rating descriptions and reports\<close>

record rating_info =
  title :: string
  description :: string
  recommendation :: string
  icon :: string

definition description_A :: rating_info where
  "description_A =
     \<lparr> title = ''Excelente'',
       description = ''Calidad Superior - El c'' @ [CHR 0xC3, CHR 0xB3] @
                     ''digo cumple con los m'' @ [CHR 0xC3, CHR 0xA1] @ ''s altos est'' @
                     [CHR 0xC3, CHR 0xA1] @ ''ndares de calidad'',
       recommendation = ''Mantener las buenas pr'' @ [CHR 0xC3, CHR 0xA1] @ ''cticas actuales'',
       icon = [CHR 0xF0, CHR 0x9F, CHR 0x8F, CHR 0x86] \<rparr>"

definition description_B :: rating_info where
  "description_B =
     \<lparr> title = ''Bueno'',
       description = ''Calidad Alta - El c'' @ [CHR 0xC3, CHR 0xB3] @ ''digo est'' @
                     [CHR 0xC3, CHR 0xA1] @ '' bien estructurado con mejoras menores posibles'',
       recommendation = ''Enfocarse en alcanzar cobertura completa y reducir fallos ocasionales'',
       icon = [CHR 0xE2, CHR 0x9C, CHR 0x85] \<rparr>"

definition description_C :: rating_info where
  "description_C =
     \<lparr> title = ''Aceptable'',
       description = ''Calidad Media - El c'' @ [CHR 0xC3, CHR 0xB3] @
                     ''digo es funcional pero requiere mejoras'',
       recommendation = ''Aumentar cobertura de pruebas y reducir la densidad de fallos'',
       icon = [CHR 0xE2, CHR 0x9A, CHR 0xA0, CHR 0xEF, CHR 0xB8, CHR 0x8F] \<rparr>"

definition description_D :: rating_info where
  "description_D =
     \<lparr> title = ''Pobre'',
       description = ''Necesita Mejora - El c'' @ [CHR 0xC3, CHR 0xB3] @
                     ''digo presenta deficiencias significativas'',
       recommendation = ''Priorizar refactorizaci'' @ [CHR 0xC3, CHR 0xB3] @
                        ''n y aumento de pruebas unitarias'',
       icon = [CHR 0xE2, CHR 0x9D, CHR 0x8C] \<rparr>"

definition description_E :: rating_info where
  "description_E =
     \<lparr> title = ''Cr'' @ [CHR 0xC3, CHR 0xAD] @ ''tico'',
       description = ''Requiere Atenci'' @ [CHR 0xC3, CHR 0xB3] @
                     ''n Inmediata - La calidad es inaceptable'',
       recommendation = ''Revisi'' @ [CHR 0xC3, CHR 0xB3] @ ''n completa del c'' @
                        [CHR 0xC3, CHR 0xB3] @ ''digo y estrategia de testing urgente'',
       icon = [CHR 0xF0, CHR 0x9F, CHR 0x9A, CHR 0xA8] \<rparr>"

definition descriptions :: "(string \<times> rating_info) list" where
  "descriptions =
     [(''A'', description_A),
      (''B'', description_B),
      (''C'', description_C),
      (''D'', description_D),
      (''E'', description_E)]"

text \<open>\<^verbatim>\<open>descriptions.get(rating, descriptions['E'])\<close>\<close>

definition get_rating_description :: "string \<Rightarrow> rating_info" where
  "get_rating_description rating_letter =
     (case map_of descriptions rating_letter of None \<Rightarrow> description_E | Some info \<Rightarrow> info)"

subsection \<open>Printing values\<close>

definition nl :: string where
  "nl = [CHR 0x0A]"

text \<open>\<^verbatim>\<open>sep.join(xs)\<close>\<close>

fun join :: "string \<Rightarrow> string list \<Rightarrow> string" where
  "join sep [] = ''''"
| "join sep [x] = x"
| "join sep (x # y # ys) = x @ sep @ join sep (y # ys)"

text \<open>
  The text a plain \<^verbatim>\<open>{v}\<close> of an f-string prints. The scorers store strings under every
  key that the reports print this way, so only the first equation is ever used by them;
  numbers print as above, and the remaining values, whose text the model does not hold,
  print as a placeholder.
\<close>

fun py_str :: "pyval \<Rightarrow> string" where
  "py_str (PStr s) = s"
| "py_str (PInt i) = int_str i"
| "py_str (PFloat x) = py_float_str x"
| "py_str _ = ''<object>''"

text \<open>\<^verbatim>\<open>f"{v:.2f}"\<close> of a stored value: a number is printed, a string raises ValueError,
  anything else TypeError.\<close>

fun py_fmt_f :: "nat \<Rightarrow> pyval \<Rightarrow> error + string" where
  "py_fmt_f p (PInt i) = Inr (fmt_f p (of_int i))"
| "py_fmt_f p (PFloat x) = Inr (fmt_f p x)"
| "py_fmt_f p (PStr s) = Inl ValueError"
| "py_fmt_f p _ = Inl TypeError"

text \<open>\<^verbatim>\<open>sep.join(v)\<close> of a stored value: the items of a list of strings, or the characters
  of a string (exact for ASCII text); anything else raises TypeError.\<close>

fun py_join :: "string \<Rightarrow> pyval \<Rightarrow> error + string" where
  "py_join sep (PStrs xs) = Inr (join sep xs)"
| "py_join sep (PStr s) = Inr (join sep (map (\<lambda>ch. [ch]) s))"
| "py_join sep _ = Inl TypeError"

definition bind_err :: "error + 'a \<Rightarrow> ('a \<Rightarrow> error + 'b) \<Rightarrow> error + 'b" where
  "bind_err r f = (case r of Inl e \<Rightarrow> Inl e | Inr x \<Rightarrow> f x)"

subsection \<open>The report generator\<close>

text \<open>
  No method of the calculator or of the generator assigns to a field after construction,
  so each method is a function of the fields of the object it is called on. A report
  method returns the report text, or the error it raised.
\<close>

record report_generator =
  calculator :: calculator

text \<open>The optional line of the text report that prints the fault density.\<close>

definition fault_density_lines :: "pydict \<Rightarrow> error + string list" where
  "fault_density_lines rel =
     (case map_of rel ''fault_density'' of
        None \<Rightarrow> Inr []
      | Some fd \<Rightarrow>
          bind_err (py_fmt_f 2 fd) (\<lambda>s.
            Inr [''   Densidad de Fallos: '' @ s @ ''%'']))"

text \<open>The lines appended to \<^verbatim>\<open>report\<close>, in order. The dictionary lookups are made in the
  order of the source, and the first one that fails decides the error.\<close>

definition text_report_lines :: "real \<Rightarrow> wqs_details \<Rightarrow> rating_info \<Rightarrow> error + string list" where
  "text_report_lines wqs dt info =
     bind_err (dict_item (reliability (details dt)) ''standard'') (\<lambda>rel_standard.
     bind_err (dict_item (reliability (details dt)) ''formula'') (\<lambda>rel_formula.
     bind_err (dict_item (reliability (details dt)) ''calculation'') (\<lambda>rel_calculation.
     bind_err (fault_density_lines (reliability (details dt))) (\<lambda>fd_lines.
     bind_err (py_join '', '' (dict_get (maintainability (details dt)) ''standards'' (PStrs []))) (\<lambda>maint_standards.
     bind_err (dict_item (maintainability (details dt)) ''formula'') (\<lambda>maint_formula.
     bind_err (dict_item (maintainability (details dt)) ''calculation'') (\<lambda>maint_calculation.
     bind_err (dict_item (performance (details dt)) ''standard'') (\<lambda>perf_standard.
     bind_err (dict_item (performance (details dt)) ''formula'') (\<lambda>perf_formula.
     bind_err (dict_item (performance (details dt)) ''calculation'') (\<lambda>perf_calculation.
       Inr (
         [replicate 70 (CHR ''=''),
          ''REPORTE DE CALIDAD DE SOFTWARE'',
          ''Basado en Est'' @ [CHR 0xC3, CHR 0xA1] @ ''ndares IEEE/ISO'',
          replicate 70 (CHR ''=''),
          '''',
          ''CALIFICACI'' @ [CHR 0xC3, CHR 0x93] @ ''N GENERAL: '' @ icon info @ '' '' @
            rating dt @ '' - '' @ title info,
          ''Puntuaci'' @ [CHR 0xC3, CHR 0xB3] @ ''n WQS: '' @ fmt_f 2 wqs @ ''/100'',
          '''',
          ''Descripci'' @ [CHR 0xC3, CHR 0xB3] @ ''n: '' @ description info,
          ''Recomendaci'' @ [CHR 0xC3, CHR 0xB3] @ ''n: '' @ recommendation info,
          '''',
          replicate 70 (CHR ''-''),
          ''1. FIABILIDAD (Reliability) - 40% del score total'',
          ''   Est'' @ [CHR 0xC3, CHR 0xA1] @ ''ndar: '' @ py_str rel_standard,
          ''   Puntuaci'' @ [CHR 0xC3, CHR 0xB3] @ ''n: '' @ fmt_f 2 (reliability (scores dt)) @
            ''/100'',
          ''   F'' @ [CHR 0xC3, CHR 0xB3] @ ''rmula: '' @ py_str rel_formula,
          ''   C'' @ [CHR 0xC3, CHR 0xA1] @ ''lculo: '' @ py_str rel_calculation] @
         fd_lines @
         ['''',
          ''2. MANTENIBILIDAD (Maintainability) - 40% del score total'',
          ''   Est'' @ [CHR 0xC3, CHR 0xA1] @ ''ndares: '' @ maint_standards,
          ''   Puntuaci'' @ [CHR 0xC3, CHR 0xB3] @ ''n: '' @
            fmt_f 2 (maintainability (scores dt)) @ ''/100'',
          ''   F'' @ [CHR 0xC3, CHR 0xB3] @ ''rmula: '' @ py_str maint_formula,
          ''   C'' @ [CHR 0xC3, CHR 0xA1] @ ''lculo: '' @ py_str maint_calculation,
          '''',
          ''3. EFICIENCIA DEL DESEMPE'' @ [CHR 0xC3, CHR 0x91] @
            ''O (Performance) - 20% del score total'',
          ''   Est'' @ [CHR 0xC3, CHR 0xA1] @ ''ndar: '' @ py_str perf_standard,
          ''   Puntuaci'' @ [CHR 0xC3, CHR 0xB3] @ ''n: '' @ fmt_f 2 (performance (scores dt)) @
            ''/100'',
          ''   F'' @ [CHR 0xC3, CHR 0xB3] @ ''rmula: '' @ py_str perf_formula,
          ''   C'' @ [CHR 0xC3, CHR 0xA1] @ ''lculo: '' @ py_str perf_calculation,
          '''',
          replicate 70 (CHR ''-''),
          ''C'' @ [CHR 0xC3, CHR 0x81] @ ''LCULO FINAL'',
          ''F'' @ [CHR 0xC3, CHR 0xB3] @ ''rmula: '' @ formula dt,
          ''C'' @ [CHR 0xC3, CHR 0xA1] @ ''lculo: '' @ calculation dt,
          '''',
          ''PONDERACI'' @ [CHR 0xC3, CHR 0x93] @ ''N (seg'' @ [CHR 0xC3, CHR 0xBA] @
            ''n ISO/IEC 25010:2011)'',
          ''  '' @ [CHR 0xE2, CHR 0x80, CHR 0xA2] @ '' Fiabilidad: '' @
            py_float_str (reliability (weights dt) * 100) @ ''%'',
          ''  '' @ [CHR 0xE2, CHR 0x80, CHR 0xA2] @ '' Mantenibilidad: '' @
            py_float_str (maintainability (weights dt) * 100) @ ''%'',
          ''  '' @ [CHR 0xE2, CHR 0x80, CHR 0xA2] @ '' Eficiencia: '' @
            py_float_str (performance (weights dt) * 100) @ ''%'',
          replicate 70 (CHR ''='')])))))))))))"

definition generate_text_report :: "report_generator \<Rightarrow> error + string" where
  "generate_text_report self =
     (case calculate_weighted_quality_score (calculator self) of
        Inl e \<Rightarrow> Inl e
      | Inr (wqs, dt) \<Rightarrow>
          let info = get_rating_description (rating dt)
          in case text_report_lines wqs dt info of
               Inl e \<Rightarrow> Inl e
             | Inr report \<Rightarrow> Inr (join nl report))"

text \<open>The f-string of the HTML report, line by line. The texts it prints for one factor
  (its standard or joined standards, its formula and its calculation) come in one record.\<close>

record factor_texts =
  standard_text :: string
  formula_text :: string
  calculation_text :: string

definition html_template ::
  "string \<Rightarrow> string \<Rightarrow> rating_info \<Rightarrow> real \<Rightarrow> wqs_details \<Rightarrow>
   factor_texts \<Rightarrow> factor_texts \<Rightarrow> factor_texts \<Rightarrow> string" where
  "html_template color rating_letter info wqs dt rel maint perf =
     join nl
      ['''',
       ''        <!DOCTYPE html>'',
       ''        <html>'',
       ''        <head>'',
       ''            <meta charset='' @ [CHR 0x22] @ ''UTF-8'' @ [CHR 0x22] @ ''>'',
       ''            <title>Reporte de Calidad de Software</title>'',
       ''            <style>'',
       ''                body { font-family: Arial, sans-serif; margin: 40px; }'',
       ''                .header { text-align: center; background: #0d6efd; color: white; padding: 20px; }'',
       ''                .rating { text-align: center; margin: 30px 0; }'',
       ''                .rating-badge { '',
       ''                    display: inline-block;'',
       ''                    font-size: 72px;'',
       ''                    font-weight: bold;'',
       ''                    color: '' @ color @ '';'',
       ''                    border: 5px solid '' @ color @ '';'',
       ''                    border-radius: 50%;'',
       ''                    width: 150px;'',
       ''                    height: 150px;'',
       ''                    line-height: 150px;'',
       ''                }'',
       ''                .score { font-size: 24px; color: #666; margin: 10px 0; }'',
       ''                .section { margin: 30px 0; padding: 20px; background: #f8f9fa; border-left: 4px solid #0d6efd; }'',
       ''                .metric { margin: 15px 0; }'',
       ''                .formula { background: #e9ecef; padding: 10px; font-family: monospace; }'',
       ''                table { width: 100%; border-collapse: collapse; margin: 20px 0; }'',
       ''                th, td { padding: 12px; text-align: left; border-bottom: 1px solid #ddd; }'',
       ''                th { background: #0d6efd; color: white; }'',
       ''            </style>'',
       ''        </head>'',
       ''        <body>'',
       ''            <div class='' @ [CHR 0x22] @ ''header'' @ [CHR 0x22] @ ''>'',
       ''                <h1>REPORTE DE CALIDAD DE SOFTWARE</h1>'',
       ''                <p>Basado en Est'' @ [CHR 0xC3, CHR 0xA1] @ ''ndares IEEE/ISO</p>'',
       ''            </div>'',
       ''            '',
       ''            <div class='' @ [CHR 0x22] @ ''rating'' @ [CHR 0x22] @ ''>'',
       ''                <div class='' @ [CHR 0x22] @ ''rating-badge'' @ [CHR 0x22] @ ''>'' @
         rating_letter @ ''</div>'',
       ''                <h2>'' @ title info @ ''</h2>'',
       ''                <div class='' @ [CHR 0x22] @ ''score'' @ [CHR 0x22] @ ''>Puntuaci'' @
         [CHR 0xC3, CHR 0xB3] @ ''n WQS: '' @ fmt_f 2 wqs @ ''/100</div>'',
       ''                <p><strong>'' @ description info @ ''</strong></p>'',
       ''                <p>Recomendaci'' @ [CHR 0xC3, CHR 0xB3] @ ''n: '' @
         recommendation info @ ''</p>'',
       ''            </div>'',
       ''            '',
       ''            <div class='' @ [CHR 0x22] @ ''section'' @ [CHR 0x22] @ ''>'',
       ''                <h3>'' @
         [CHR 0xF0, CHR 0x9F, CHR 0x9B, CHR 0xA1, CHR 0xEF, CHR 0xB8, CHR 0x8F] @
         '' 1. FIABILIDAD (Reliability) - 40%</h3>'',
       ''                <div class='' @ [CHR 0x22] @ ''metric'' @ [CHR 0x22] @ ''>'',
       ''                    <strong>Est'' @ [CHR 0xC3, CHR 0xA1] @ ''ndar:</strong> '' @
         standard_text rel @ ''<br>'',
       ''                    <strong>Puntuaci'' @ [CHR 0xC3, CHR 0xB3] @ ''n:</strong> '' @
         fmt_f 2 (reliability (scores dt)) @ ''/100'',
       ''                </div>'',
       ''                <div class='' @ [CHR 0x22] @ ''formula'' @ [CHR 0x22] @ ''>'',
       ''                    <strong>F'' @ [CHR 0xC3, CHR 0xB3] @ ''rmula:</strong> '' @
         formula_text rel @ ''<br>'',
       ''                    <strong>C'' @ [CHR 0xC3, CHR 0xA1] @ ''lculo:</strong> '' @
         calculation_text rel,
       ''                </div>'',
       ''            </div>'',
       ''            '',
       ''            <div class='' @ [CHR 0x22] @ ''section'' @ [CHR 0x22] @ ''>'',
       ''                <h3>'' @ [CHR 0xE2, CHR 0x9A, CHR 0x99, CHR 0xEF, CHR 0xB8, CHR 0x8F] @
         '' 2. MANTENIBILIDAD (Maintainability) - 40%</h3>'',
       ''                <div class='' @ [CHR 0x22] @ ''metric'' @ [CHR 0x22] @ ''>'',
       ''                    <strong>Est'' @ [CHR 0xC3, CHR 0xA1] @ ''ndares:</strong> '' @
         standard_text maint @ ''<br>'',
       ''                    <strong>Puntuaci'' @ [CHR 0xC3, CHR 0xB3] @ ''n:</strong> '' @
         fmt_f 2 (maintainability (scores dt)) @ ''/100'',
       ''                </div>'',
       ''                <div class='' @ [CHR 0x22] @ ''formula'' @ [CHR 0x22] @ ''>'',
       ''                    <strong>F'' @ [CHR 0xC3, CHR 0xB3] @ ''rmula:</strong> '' @
         formula_text maint @ ''<br>'',
       ''                    <strong>C'' @ [CHR 0xC3, CHR 0xA1] @ ''lculo:</strong> '' @
         calculation_text maint,
       ''                </div>'',
       ''            </div>'',
       ''            '',
       ''            <div class='' @ [CHR 0x22] @ ''section'' @ [CHR 0x22] @ ''>'',
       ''                <h3>'' @ [CHR 0xE2, CHR 0x8F, CHR 0xB1, CHR 0xEF, CHR 0xB8, CHR 0x8F] @
         '' 3. EFICIENCIA DEL DESEMPE'' @ [CHR 0xC3, CHR 0x91] @ ''O (Performance) - 20%</h3>'',
       ''                <div class='' @ [CHR 0x22] @ ''metric'' @ [CHR 0x22] @ ''>'',
       ''                    <strong>Est'' @ [CHR 0xC3, CHR 0xA1] @ ''ndar:</strong> '' @
         standard_text perf @ ''<br>'',
       ''                    <strong>Puntuaci'' @ [CHR 0xC3, CHR 0xB3] @ ''n:</strong> '' @
         fmt_f 2 (performance (scores dt)) @ ''/100'',
       ''                </div>'',
       ''                <div class='' @ [CHR 0x22] @ ''formula'' @ [CHR 0x22] @ ''>'',
       ''                    <strong>F'' @ [CHR 0xC3, CHR 0xB3] @ ''rmula:</strong> '' @
         formula_text perf @ ''<br>'',
       ''                    <strong>C'' @ [CHR 0xC3, CHR 0xA1] @ ''lculo:</strong> '' @
         calculation_text perf,
       ''                </div>'',
       ''            </div>'',
       ''            '',
       ''            <div class='' @ [CHR 0x22] @ ''section'' @ [CHR 0x22] @ ''>'',
       ''                <h3>'' @ [CHR 0xF0, CHR 0x9F, CHR 0x93, CHR 0x8A] @ '' C'' @
         [CHR 0xC3, CHR 0x81] @ ''LCULO FINAL</h3>'',
       ''                <div class='' @ [CHR 0x22] @ ''formula'' @ [CHR 0x22] @ ''>'',
       ''                    <strong>F'' @ [CHR 0xC3, CHR 0xB3] @ ''rmula:</strong> '' @
         formula dt @ ''<br>'',
       ''                    <strong>C'' @ [CHR 0xC3, CHR 0xA1] @ ''lculo:</strong> '' @
         calculation dt,
       ''                </div>'',
       ''                '',
       ''                <h4>Ponderaci'' @ [CHR 0xC3, CHR 0xB3] @ ''n (seg'' @
         [CHR 0xC3, CHR 0xBA] @ ''n ISO/IEC 25010:2011)</h4>'',
       ''                <table>'',
       ''                    <tr>'',
       ''                        <th>Caracter'' @ [CHR 0xC3, CHR 0xAD] @ ''stica</th>'',
       ''                        <th>Peso</th>'',
       ''                        <th>Puntuaci'' @ [CHR 0xC3, CHR 0xB3] @ ''n</th>'',
       ''                        <th>Contribuci'' @ [CHR 0xC3, CHR 0xB3] @ ''n</th>'',
       ''                    </tr>'',
       ''                    <tr>'',
       ''                        <td>Fiabilidad</td>'',
       ''                        <td>'' @ fmt_f 0 (reliability (weights dt) * 100) @
         ''%</td>'',
       ''                        <td>'' @ fmt_f 2 (reliability (scores dt)) @ ''</td>'',
       ''                        <td>'' @
         fmt_f 2 (reliability (weights dt) * reliability (scores dt)) @ ''</td>'',
       ''                    </tr>'',
       ''                    <tr>'',
       ''                        <td>Mantenibilidad</td>'',
       ''                        <td>'' @ fmt_f 0 (maintainability (weights dt) * 100) @
         ''%</td>'',
       ''                        <td>'' @ fmt_f 2 (maintainability (scores dt)) @ ''</td>'',
       ''                        <td>'' @
         fmt_f 2 (maintainability (weights dt) * maintainability (scores dt)) @ ''</td>'',
       ''                    </tr>'',
       ''                    <tr>'',
       ''                        <td>Eficiencia</td>'',
       ''                        <td>'' @ fmt_f 0 (performance (weights dt) * 100) @
         ''%</td>'',
       ''                        <td>'' @ fmt_f 2 (performance (scores dt)) @ ''</td>'',
       ''                        <td>'' @
         fmt_f 2 (performance (weights dt) * performance (scores dt)) @ ''</td>'',
       ''                    </tr>'',
       ''                    <tr style='' @ [CHR 0x22] @
         ''background: #e9ecef; font-weight: bold;'' @ [CHR 0x22] @ ''>'',
       ''                        <td>TOTAL</td>'',
       ''                        <td>100%</td>'',
       ''                        <td>-</td>'',
       ''                        <td>'' @ fmt_f 2 wqs @ ''</td>'',
       ''                    </tr>'',
       ''                </table>'',
       ''            </div>'',
       ''        </body>'',
       ''        </html>'',
       ''        '']"

definition generate_html_report :: "report_generator \<Rightarrow> error + string" where
  "generate_html_report self =
     (case calculate_weighted_quality_score (calculator self) of
        Inl e \<Rightarrow> Inl e
      | Inr (wqs, dt) \<Rightarrow>
          let info = get_rating_description (rating dt);
              color = rating_color dt
          in bind_err (dict_item (reliability (details dt)) ''standard'') (\<lambda>rel_standard.
             bind_err (dict_item (reliability (details dt)) ''formula'') (\<lambda>rel_formula.
             bind_err (dict_item (reliability (details dt)) ''calculation'') (\<lambda>rel_calculation.
             bind_err (py_join '', '' (dict_get (maintainability (details dt)) ''standards'' (PStrs []))) (\<lambda>maint_standards.
             bind_err (dict_item (maintainability (details dt)) ''formula'') (\<lambda>maint_formula.
             bind_err (dict_item (maintainability (details dt)) ''calculation'') (\<lambda>maint_calculation.
             bind_err (dict_item (performance (details dt)) ''standard'') (\<lambda>perf_standard.
             bind_err (dict_item (performance (details dt)) ''formula'') (\<lambda>perf_formula.
             bind_err (dict_item (performance (details dt)) ''calculation'') (\<lambda>perf_calculation.
               Inr (html_template color (rating dt) info wqs dt
                      \<lparr> standard_text = py_str rel_standard,
                        formula_text = py_str rel_formula,
                        calculation_text = py_str rel_calculation \<rparr>
                      \<lparr> standard_text = maint_standards,
                        formula_text = py_str maint_formula,
                        calculation_text = py_str maint_calculation \<rparr>
                      \<lparr> standard_text = py_str perf_standard,
                        formula_text = py_str perf_formula,
                        calculation_text = py_str perf_calculation \<rparr>)))))))))))"

text \<open>Generators over the sample calculator, over the sample run without coverage data,
  and without any data; and a run of \<open>10 ^ 400\<close> passed tests that took one second.\<close>

definition sample_generator :: report_generator where
  "sample_generator = \<lparr> calculator = sample_calc \<rparr>"

definition run_only_generator :: report_generator where
  "run_only_generator = \<lparr> calculator = \<lparr> junit_data = Some sample_run, jacoco_data = None \<rparr> \<rparr>"

definition empty_generator :: report_generator where
  "empty_generator = \<lparr> calculator = \<lparr> junit_data = None, jacoco_data = None \<rparr> \<rparr>"

definition huge_run :: pydict where
  "huge_run =
     [(''total_tests'', PInt (10 ^ 400)), (''passed'', PInt (10 ^ 400)), (''failures'', PInt 0),
      (''errors'', PInt 0), (''skipped'', PInt 0), (''execution_time'', PFloat 1.0)]"


section \<open>Basic facts about the model\<close>

lemma dict_get_simps:
  "dict_get [] k v = v"
  "dict_get ((k', v') # d) k v = (if k' = k then v' else dict_get d k v)"
  by (simp_all add: dict_get_def)

lemma py_not_Some: "d \<noteq> [] \<Longrightarrow> py_not (Some d) = False"
  by (simp add: py_not_def)

lemma py_eq_zero_num: "py_eq_zero v \<longleftrightarrow> py_num v = Some 0"
  by (cases v) simp_all

text \<open>The loop over the five bands, unfolded.\<close>

lemma get_rating_cases:
  "get_rating w =
     (if 90 \<le> w \<and> w \<le> 100 then ''A''
      else if 80 \<le> w \<and> w \<le> 89 then ''B''
      else if 70 \<le> w \<and> w \<le> 79 then ''C''
      else if 60 \<le> w \<and> w \<le> 69 then ''D''
      else ''E'')"
  by (simp add: get_rating_def RATING_RANGES_def)

text \<open>The rating is always one of the five letters, and every score strictly between
  two bands gets the default letter.\<close>

lemma get_rating_letter: "get_rating w \<in> {''A'', ''B'', ''C'', ''D'', ''E''}"
  by (simp add: get_rating_cases)

lemma get_rating_between_bands:
  "(89 < w \<and> w < 90) \<or> (79 < w \<and> w < 80) \<or> (69 < w \<and> w < 70) \<or> (59 < w \<and> w < 60) \<Longrightarrow>
   get_rating w = ''E''"
  by (auto simp: get_rating_cases)

lemma rating_color_defined: "\<exists>col. map_of RATING_COLORS (get_rating w) = Some col"
  by (simp add: get_rating_cases RATING_COLORS_def)

text \<open>The score each scorer returns, without its detail dictionary.\<close>

lemma reliability_score_eq:
  "score_of (calculate_reliability_score c) =
     (if py_not (junit_data c) then Some 0
      else if py_eq_zero (dict_get (the (junit_data c)) ''total_tests'' (PInt 0)) then Some 0
      else case (py_num (dict_get (the (junit_data c)) ''failures'' (PInt 0)),
                 py_num (dict_get (the (junit_data c)) ''errors'' (PInt 0)),
                 py_num (dict_get (the (junit_data c)) ''total_tests'' (PInt 0))) of
             (Some f, Some e, Some t) \<Rightarrow> Some ((1 - (f + e) / t) * 100)
           | _ \<Rightarrow> None)"
  by (simp add: score_of_def calculate_reliability_score_def Let_def split: option.splits)

lemma maintainability_score_eq:
  "score_of (calculate_maintainability_score c) =
     (if py_not (jacoco_data c) then Some 0
      else case (py_num (dict_get (the (jacoco_data c)) ''line_coverage'' (PInt 0)),
                 py_num (dict_get (the (jacoco_data c)) ''branch_coverage'' (PInt 0))) of
             (Some lc, Some bc) \<Rightarrow> Some (0.6 * lc + 0.4 * bc)
           | _ \<Rightarrow> None)"
  by (simp add: score_of_def calculate_maintainability_score_def Let_def split: option.splits)

text \<open>Division: where it does not overflow it is the quotient of the two numbers, and it
  does not overflow when both numbers are below the limit.\<close>

lemma py_pos_num: "py_num a = Some x \<Longrightarrow> py_pos a \<longleftrightarrow> 0 < x"
  by (cases a) auto

lemma py_truediv_fit:
  assumes "py_num a = Some x" and "py_num b = Some y" and "y \<noteq> 0"
    and "\<not> division_overflows a b"
  shows "py_truediv a b = Inr (x / y)"
  using assms by (cases a; cases b) (auto simp: division_overflows_def split: if_splits)

lemma int_quotient_le:
  fixes a b :: int
  assumes "b \<noteq> 0"
  shows "\<bar>of_int a / of_int b :: real\<bar> \<le> \<bar>of_int a\<bar>"
proof -
  have "1 \<le> \<bar>b\<bar>" using assms by simp
  then have "(of_int 1 :: real) \<le> of_int \<bar>b\<bar>" by (simp only: of_int_le_iff)
  then have "1 \<le> \<bar>of_int b :: real\<bar>" by simp
  then have "\<bar>of_int a :: real\<bar> / \<bar>of_int b\<bar> \<le> \<bar>of_int a\<bar> / 1"
    by (intro divide_left_mono) simp_all
  then show ?thesis by simp
qed

lemma division_fits_below_limit:
  assumes "py_num a = Some x" and "py_num b = Some y"
    and "\<bar>x\<bar> < DBL_LIMIT" and "\<bar>y\<bar> < DBL_LIMIT"
  shows "\<not> division_overflows a b"
proof (cases a; cases b)
  fix i j assume ab: "a = PInt i" "b = PInt j"
  show ?thesis
  proof (cases "j = 0")
    case True
    then show ?thesis using ab by (simp add: division_overflows_def)
  next
    case False
    from int_quotient_le [OF False, of i] assms ab
    have "\<bar>of_int i / of_int j :: real\<bar> < DBL_LIMIT" by simp
    then show ?thesis using ab False by (simp add: division_overflows_def)
  qed
qed (use assms in \<open>auto simp: division_overflows_def\<close>)

lemma performance_score_absent:
  "py_not (junit_data c) \<Longrightarrow> score_of (calculate_performance_score c) = Some 0"
  by (simp add: score_of_def calculate_performance_score_def)


lemma performance_score_fit:
  assumes "junit_data c = Some d" and "d \<noteq> []"
    and "py_num (dict_get d ''total_tests'' (PInt 0)) = Some n" and "n \<noteq> 0"
    and "py_num (dict_get d ''execution_time'' (PInt 0)) = Some tm" and "tm \<noteq> 0"
    and "performance_divisions_fit d"
  shows "score_of (calculate_performance_score c) =
           Some (if tm / n \<le> PERFORMANCE_THRESHOLD then 100
                 else min 100 ((PERFORMANCE_THRESHOLD / (tm / n)) * 100))"
proof -
  let ?time = "dict_get d ''execution_time'' (PInt 0)"
  let ?total = "dict_get d ''total_tests'' (PInt 0)"
  have avg: "py_truediv ?time ?total = Inr (tm / n)"
    using assms by (intro py_truediv_fit) (simp_all add: performance_divisions_fit_def)
  have thr: "py_truediv ?total ?time = Inr (n / tm)"
    using assms by (intro py_truediv_fit) (simp_all add: performance_divisions_fit_def)
  show ?thesis
    using assms(1-6) avg thr
    by (simp add: score_of_def calculate_performance_score_def Let_def py_not_Some py_eq_zero_num)
qed

lemma score_of_Some: "score_of r = Some s \<Longrightarrow> \<exists>d. r = Inr (s, d)"
  by (auto simp: score_of_def split: sum.splits)

lemma weighted_summary:
  assumes "score_of (calculate_reliability_score c) = Some r"
    and "score_of (calculate_maintainability_score c) = Some m"
    and "score_of (calculate_performance_score c) = Some p"
  shows "summary (calculate_weighted_quality_score c) =
           Inr (0.4 * r + 0.4 * m + 0.2 * p,
                \<lparr> reliability = r, maintainability = m, performance = p \<rparr>,
                get_rating (0.4 * r + 0.4 * m + 0.2 * p))"
proof -
  obtain dr dm dp where
    "calculate_reliability_score c = Inr (r, dr)"
    "calculate_maintainability_score c = Inr (m, dm)"
    "calculate_performance_score c = Inr (p, dp)"
    using assms by (blast dest: score_of_Some)
  moreover obtain col where
    "map_of RATING_COLORS (get_rating (0.4 * r + 0.4 * m + 0.2 * p)) = Some col"
    using rating_color_defined by blast
  ultimately show ?thesis
    by (simp add: summary_def calculate_weighted_quality_score_def Let_def
        WEIGHT_RELIABILITY_def WEIGHT_MAINTAINABILITY_def WEIGHT_PERFORMANCE_def)
qed

lemma sample_run_fits: "performance_divisions_fit sample_run"
  by (simp add: performance_divisions_fit_def division_overflows_def sample_run_def
      dict_get_simps DBL_LIMIT_def)

lemma sample_scores:
  "score_of (calculate_reliability_score sample_calc) = Some 95"
  "score_of (calculate_maintainability_score sample_calc) = Some 79"
  "score_of (calculate_performance_score sample_calc) = Some 100"
proof -
  show "score_of (calculate_reliability_score sample_calc) = Some 95"
       "score_of (calculate_maintainability_score sample_calc) = Some 79"
    by (simp_all add: reliability_score_eq maintainability_score_eq
        sample_calc_def sample_run_def sample_cov_def py_not_def dict_get_simps)
  have "score_of (calculate_performance_score sample_calc) =
          Some (if 45 / 100 \<le> PERFORMANCE_THRESHOLD then 100
                else min 100 ((PERFORMANCE_THRESHOLD / (45 / 100)) * 100))"
    by (rule performance_score_fit [where d = sample_run])
       (simp_all add: sample_calc_def sample_run_fits, simp_all add: sample_run_def dict_get_simps)
  then show "score_of (calculate_performance_score sample_calc) = Some 100"
    by (simp add: PERFORMANCE_THRESHOLD_def)
qed

lemma absent_scores:
  "score_of (calculate_reliability_score \<lparr> junit_data = None, jacoco_data = None \<rparr>) = Some 0"
  "score_of (calculate_maintainability_score \<lparr> junit_data = None, jacoco_data = None \<rparr>) = Some 0"
  "score_of (calculate_performance_score \<lparr> junit_data = None, jacoco_data = None \<rparr>) = Some 0"
  by (simp_all add: reliability_score_eq maintainability_score_eq performance_score_absent py_not_def)


section \<open>Rating bands\<close>

text \<open>
  Claim C1. The claim asks that every score in [0,100] is rated by closed real-valued bands
  with lower bounds 90/80/70/60, so that 89.5 is rated B. The source's table holds the upper
  bounds 89, 79, 69 and 59: a score strictly between 89 and 90 matches no band, the loop
  ends, and the function returns its default E. So 89.5 is rated E, while 89 is rated B
  and 90 is rated A.
\<close>

theorem get_rating_fractional_gap:
  "get_rating 89.5 = ''E'' \<and> get_rating 89 = ''B'' \<and> get_rating 90 = ''A''"
  by (simp add: get_rating_cases)

section \<open>Scenarios\<close>

text \<open>
  Claim C2, as stated, fails: with both summaries absent the performance scorer takes its
  own no-data branch and returns 0, not 100, and the weighted score is 0, not 20.
\<close>

theorem absent_inputs_performance_not_100:
  "score_of (calculate_performance_score \<lparr> junit_data = None, jacoco_data = None \<rparr>) \<noteq> Some 100 \<and>
   score_of (calculate_weighted_quality_score \<lparr> junit_data = None, jacoco_data = None \<rparr>) \<noteq> Some 20"
proof -
  from weighted_summary [OF absent_scores]
  have "score_of (calculate_weighted_quality_score \<lparr> junit_data = None, jacoco_data = None \<rparr>) = Some 0"
    by (auto simp: summary_def score_of_def split: sum.splits)
  then show ?thesis
    using absent_scores(3) by simp
qed

text \<open>
  Claim C2, amended: with both summaries absent, the reliability, maintainability and
  performance scores are all 0, the weighted quality score is 0 and the rating is E.
\<close>

theorem absent_inputs_scores:
  "summary (calculate_weighted_quality_score \<lparr> junit_data = None, jacoco_data = None \<rparr>) =
     Inr (0, \<lparr> reliability = 0, maintainability = 0, performance = 0 \<rparr>, ''E'') \<and>
   calculate_performance_score \<lparr> junit_data = None, jacoco_data = None \<rparr> =
     Inr (0, [(''error'', PStr ''No JUnit data available'')])"
proof -
  from weighted_summary [OF absent_scores]
  have "summary (calculate_weighted_quality_score \<lparr> junit_data = None, jacoco_data = None \<rparr>) =
          Inr (0, \<lparr> reliability = 0, maintainability = 0, performance = 0 \<rparr>, ''E'')"
    by (simp add: get_rating_cases)
  then show ?thesis
    by (simp add: calculate_performance_score_def py_not_def)
qed

text \<open>
  Claim C3. On the sample run and coverage the component scores are 95, 79 and 100 and the
  weighted score is 89.6, as the claim says; the letter the code returns for 89.6 is E, not
  the claimed B, because 89.6 lies between the bands of B and A.
\<close>

theorem sample_scenario_rating:
  "summary (calculate_weighted_quality_score sample_calc) =
     Inr (89.6, \<lparr> reliability = 95, maintainability = 79, performance = 100 \<rparr>, ''E'')"
  using weighted_summary [OF sample_scores] by (simp add: get_rating_cases)

section \<open>The scorers\<close>

text \<open>
  Claim C4. When the JUnit dictionary is present (not None and not empty) and its total
  test count or its execution time equals 0, the performance scorer returns 100 with the
  single detail entry \<open>note\<close>, not the \<open>error\<close> entry of the no-data branches. The
  reliability scorer returns 0 with an \<open>error\<close> entry when the test count is 0 and when
  the JUnit dictionary is absent or empty, and the maintainability scorer returns 0 with an
  \<open>error\<close> entry when the JaCoCo dictionary is absent or empty.
\<close>

theorem performance_no_signal_default:
  "(junit_data c = Some d \<and> d \<noteq> [] \<and>
    (py_eq_zero (dict_get d ''total_tests'' (PInt 0)) \<or>
     py_eq_zero (dict_get d ''execution_time'' (PInt 0))) \<longrightarrow>
      calculate_performance_score c =
        Inr (100, [(''note'', PStr ''No performance data, assuming optimal'')])) \<and>
   (junit_data c = Some d \<and> d \<noteq> [] \<and> py_eq_zero (dict_get d ''total_tests'' (PInt 0)) \<longrightarrow>
      calculate_reliability_score c = Inr (0, [(''error'', PStr ''No tests executed'')])) \<and>
   (py_not (junit_data c) \<longrightarrow>
      calculate_reliability_score c = Inr (0, [(''error'', PStr ''No JUnit data available'')])) \<and>
   (py_not (jacoco_data c) \<longrightarrow>
      calculate_maintainability_score c = Inr (0, [(''error'', PStr ''No JaCoCo data available'')]))"
  by (simp add: calculate_performance_score_def calculate_reliability_score_def
      calculate_maintainability_score_def py_not_Some)

theorem performance_no_signal_default_witness:
  "calculate_performance_score \<lparr> junit_data = Some empty_run, jacoco_data = None \<rparr> =
     Inr (100, [(''note'', PStr ''No performance data, assuming optimal'')]) \<and>
   calculate_reliability_score \<lparr> junit_data = Some empty_run, jacoco_data = None \<rparr> =
     Inr (0, [(''error'', PStr ''No tests executed'')]) \<and>
   calculate_maintainability_score \<lparr> junit_data = Some empty_run, jacoco_data = None \<rparr> =
     Inr (0, [(''error'', PStr ''No JaCoCo data available'')]) \<and>
   calculate_reliability_score \<lparr> junit_data = None, jacoco_data = None \<rparr> =
     Inr (0, [(''error'', PStr ''No JUnit data available'')])"
  using performance_no_signal_default
    [of "\<lparr> junit_data = Some empty_run, jacoco_data = None \<rparr>" empty_run]
    performance_no_signal_default [of "\<lparr> junit_data = None, jacoco_data = None \<rparr>" "[]"]
  by (simp add: empty_run_def dict_get_simps py_not_def)

text \<open>
  Claim C5. For a present JUnit dictionary with numeric fields, the reliability score is
  \<open>(1 - (failures + errors) / total_tests) * 100\<close> when the test count is not 0; it is
  exactly 100 when the count is positive and there are no failures and no errors; and
  when the count is 0 the scorer returns 0 with the detail \<open>error: No tests executed\<close>.
\<close>

theorem reliability_formula:
  assumes "junit_data c = Some d" and "d \<noteq> []"
  shows "(py_num (dict_get d ''total_tests'' (PInt 0)) = Some t \<and> t \<noteq> 0 \<and>
          py_num (dict_get d ''failures'' (PInt 0)) = Some f \<and>
          py_num (dict_get d ''errors'' (PInt 0)) = Some e \<longrightarrow>
            score_of (calculate_reliability_score c) = Some ((1 - (f + e) / t) * 100)) \<and>
         (py_num (dict_get d ''total_tests'' (PInt 0)) = Some t \<and> 0 < t \<and>
          py_num (dict_get d ''failures'' (PInt 0)) = Some 0 \<and>
          py_num (dict_get d ''errors'' (PInt 0)) = Some 0 \<longrightarrow>
            score_of (calculate_reliability_score c) = Some 100) \<and>
         (py_num (dict_get d ''total_tests'' (PInt 0)) = Some 0 \<longrightarrow>
            calculate_reliability_score c = Inr (0, [(''error'', PStr ''No tests executed'')]))"
proof -
  have "score_of (calculate_reliability_score c) = Some ((1 - (f + e) / t) * 100)"
    if "py_num (dict_get d ''total_tests'' (PInt 0)) = Some t" "t \<noteq> 0"
       "py_num (dict_get d ''failures'' (PInt 0)) = Some f"
       "py_num (dict_get d ''errors'' (PInt 0)) = Some e" for f e
    using assms that by (simp add: reliability_score_eq py_not_Some py_eq_zero_num)
  moreover have "calculate_reliability_score c = Inr (0, [(''error'', PStr ''No tests executed'')])"
    if "py_num (dict_get d ''total_tests'' (PInt 0)) = Some 0"
    using assms that by (simp add: calculate_reliability_score_def py_not_Some py_eq_zero_num)
  ultimately show ?thesis
    by fastforce
qed

theorem reliability_formula_witness:
  "score_of (calculate_reliability_score \<lparr> junit_data = Some sample_run, jacoco_data = None \<rparr>) = Some 95 \<and>
   score_of (calculate_reliability_score \<lparr> junit_data = Some clean_run, jacoco_data = None \<rparr>) = Some 100 \<and>
   calculate_reliability_score \<lparr> junit_data = Some empty_run, jacoco_data = None \<rparr> =
     Inr (0, [(''error'', PStr ''No tests executed'')])"
  using reliability_formula [of "\<lparr> junit_data = Some sample_run, jacoco_data = None \<rparr>" sample_run 100 3 2]
    reliability_formula [of "\<lparr> junit_data = Some clean_run, jacoco_data = None \<rparr>" clean_run 10 0 0]
    reliability_formula [of "\<lparr> junit_data = Some empty_run, jacoco_data = None \<rparr>" empty_run 0 0 0]
  by (simp add: sample_run_def clean_run_def empty_run_def dict_get_simps)

text \<open>
  Claim C6. For a present JaCoCo dictionary with numeric coverage fields, the maintainability
  score is \<open>0.6 * line_coverage + 0.4 * branch_coverage\<close>, and so is the testability score
  of \<^verbatim>\<open>MaintainabilityMetrics\<close>; with both coverages 100 both are exactly 100.
\<close>

theorem maintainability_formula:
  assumes "jacoco_data c = Some d" and "d \<noteq> []"
    and "py_num (dict_get d ''line_coverage'' (PInt 0)) = Some lc"
    and "py_num (dict_get d ''branch_coverage'' (PInt 0)) = Some bc"
  shows "score_of (calculate_maintainability_score c) = Some (0.6 * lc + 0.4 * bc) \<and>
         get_testability_score d = Inr (0.6 * lc + 0.4 * bc) \<and>
         (lc = 100 \<and> bc = 100 \<longrightarrow>
            score_of (calculate_maintainability_score c) = Some 100 \<and>
            get_testability_score d = Inr 100)"
  using assms
  by (simp add: maintainability_score_eq get_testability_score_def py_not_Some)

theorem maintainability_formula_witness:
  "score_of (calculate_maintainability_score \<lparr> junit_data = None, jacoco_data = Some full_cov \<rparr>) = Some 100 \<and>
   get_testability_score full_cov = Inr 100 \<and>
   score_of (calculate_maintainability_score \<lparr> junit_data = None, jacoco_data = Some sample_cov \<rparr>) = Some 79"
  using maintainability_formula [of "\<lparr> junit_data = None, jacoco_data = Some full_cov \<rparr>" full_cov 100 100]
    maintainability_formula [of "\<lparr> junit_data = None, jacoco_data = Some sample_cov \<rparr>" sample_cov 85 70]
  by (simp add: full_cov_def sample_cov_def dict_get_simps)

text \<open>
  Claim C7, as stated, fails: a run of \<open>10 ^ 400\<close> tests that took one second has a
  positive test count and a positive execution time, and the performance scorer returns no
  score for it. The division \<^verbatim>\<open>total_time / total_tests\<close> raises OverflowError, because
  the test count is beyond the double range.
\<close>

theorem huge_run_performance_overflows:
  "py_pos (dict_get huge_run ''total_tests'' (PInt 0)) \<and>
   py_pos (dict_get huge_run ''execution_time'' (PInt 0)) \<and>
   calculate_performance_score \<lparr> junit_data = Some huge_run, jacoco_data = None \<rparr> =
     Inl OverflowError"
  by (simp add: calculate_performance_score_def huge_run_def py_not_def dict_get_simps
      DBL_LIMIT_def)

text \<open>
  Claim C7, amended: for a present JUnit dictionary with a positive test count and a
  positive execution time on which neither division of the scorer overflows, the
  performance scorer returns a score between 0 and 100; the score is exactly 100 when the
  average test time is at most the threshold (the threshold itself included), and exactly
  50 when the average test time is twice the threshold.
\<close>

theorem performance_threshold_scores:
  assumes "junit_data c = Some d" and "d \<noteq> []"
    and "py_num (dict_get d ''total_tests'' (PInt 0)) = Some n" and "0 < n"
    and "py_num (dict_get d ''execution_time'' (PInt 0)) = Some tm" and "0 < tm"
    and "performance_divisions_fit d"
  shows "\<exists>s. score_of (calculate_performance_score c) = Some s \<and> 0 \<le> s \<and> s \<le> 100 \<and>
           (tm / n \<le> PERFORMANCE_THRESHOLD \<longrightarrow> s = 100) \<and>
           (tm / n = 2 * PERFORMANCE_THRESHOLD \<longrightarrow> s = 50)"
proof -
  have avg: "0 < tm / n" using assms by simp
  have "score_of (calculate_performance_score c) =
          Some (if tm / n \<le> PERFORMANCE_THRESHOLD then 100
                else min 100 ((PERFORMANCE_THRESHOLD / (tm / n)) * 100))"
    using assms by (intro performance_score_fit) simp_all
  moreover have "0 \<le> PERFORMANCE_THRESHOLD / (tm / n) * 100"
    using avg by (intro mult_nonneg_nonneg divide_nonneg_pos) (simp_all add: PERFORMANCE_THRESHOLD_def)
  moreover have "tm / n = 2 * PERFORMANCE_THRESHOLD \<Longrightarrow>
      \<not> tm / n \<le> PERFORMANCE_THRESHOLD \<and> PERFORMANCE_THRESHOLD / (tm / n) * 100 = 50"
    by (simp add: PERFORMANCE_THRESHOLD_def)
  ultimately show ?thesis
    by (auto simp: min_def)
qed

theorem performance_threshold_scores_witness:
  "performance_divisions_fit boundary_run \<and> performance_divisions_fit clean_run \<and>
   score_of (calculate_performance_score \<lparr> junit_data = Some boundary_run, jacoco_data = None \<rparr>) = Some 100 \<and>
   score_of (calculate_performance_score \<lparr> junit_data = Some clean_run, jacoco_data = None \<rparr>) = Some 50"
proof -
  have b: "performance_divisions_fit boundary_run"
    by (simp add: performance_divisions_fit_def division_overflows_def boundary_run_def
        dict_get_simps DBL_LIMIT_def)
  have c: "performance_divisions_fit clean_run"
    by (simp add: performance_divisions_fit_def division_overflows_def clean_run_def
        dict_get_simps DBL_LIMIT_def)
  show ?thesis
    using b c
      performance_threshold_scores [of "\<lparr> junit_data = Some boundary_run, jacoco_data = None \<rparr>" boundary_run 10 5]
      performance_threshold_scores [of "\<lparr> junit_data = Some clean_run, jacoco_data = None \<rparr>" clean_run 10 10]
    by (auto simp: boundary_run_def clean_run_def dict_get_simps PERFORMANCE_THRESHOLD_def)
qed

section \<open>Score ranges\<close>











section \<open>Missing coverage fields\<close>

text \<open>
  Claim C10. A JaCoCo dictionary that is present and not empty is scored even when it lacks
  \<open>line_coverage\<close> or \<open>branch_coverage\<close>: a missing field is read as 0, the score is
  computed from the values read, and the detail dictionary has no \<open>error\<close> entry and
  records the 0. The no-data result (0 with the \<open>error\<close> detail) is returned exactly when
  the dictionary is absent or empty.
\<close>

theorem maintainability_missing_fields_default:
  "(jacoco_data c = Some d \<and> d \<noteq> [] \<and>
    py_num (dict_get d ''line_coverage'' (PInt 0)) = Some lc \<and>
    py_num (dict_get d ''branch_coverage'' (PInt 0)) = Some bc \<longrightarrow>
      (\<exists>dt. calculate_maintainability_score c = Inr (0.6 * lc + 0.4 * bc, dt) \<and>
            map_of dt ''error'' = None \<and>
            (map_of d ''line_coverage'' = None \<longrightarrow>
               lc = 0 \<and> map_of dt ''line_coverage'' = Some (PInt 0)) \<and>
            (map_of d ''branch_coverage'' = None \<longrightarrow>
               bc = 0 \<and> map_of dt ''branch_coverage'' = Some (PInt 0)))) \<and>
   (calculate_maintainability_score c = Inr (0, [(''error'', PStr ''No JaCoCo data available'')])
      \<longleftrightarrow> py_not (jacoco_data c))"
proof -
  have "calculate_maintainability_score c \<noteq> Inr (0, [(''error'', PStr ''No JaCoCo data available'')])"
    if "\<not> py_not (jacoco_data c)"
    using that by (simp add: calculate_maintainability_score_def Let_def split: option.splits)
  moreover have "calculate_maintainability_score c = Inr (0, [(''error'', PStr ''No JaCoCo data available'')])"
    if "py_not (jacoco_data c)"
    using that by (simp add: calculate_maintainability_score_def)
  moreover have "\<exists>dt. calculate_maintainability_score c = Inr (0.6 * lc + 0.4 * bc, dt) \<and>
            map_of dt ''error'' = None \<and>
            (map_of d ''line_coverage'' = None \<longrightarrow>
               lc = 0 \<and> map_of dt ''line_coverage'' = Some (PInt 0)) \<and>
            (map_of d ''branch_coverage'' = None \<longrightarrow>
               bc = 0 \<and> map_of dt ''branch_coverage'' = Some (PInt 0))"
    if "jacoco_data c = Some d" "d \<noteq> []"
      "py_num (dict_get d ''line_coverage'' (PInt 0)) = Some lc"
      "py_num (dict_get d ''branch_coverage'' (PInt 0)) = Some bc"
    using that by (auto simp: calculate_maintainability_score_def py_not_Some dict_get_def Let_def)
  ultimately show ?thesis by blast
qed

theorem maintainability_missing_fields_default_witness:
  "\<exists>dt. calculate_maintainability_score \<lparr> junit_data = None, jacoco_data = Some counts_only_cov \<rparr> =
          Inr (0, dt) \<and>
        map_of dt ''error'' = None \<and>
        map_of dt ''line_coverage'' = Some (PInt 0) \<and>
        map_of dt ''branch_coverage'' = Some (PInt 0)"
  using maintainability_missing_fields_default
    [of "\<lparr> junit_data = None, jacoco_data = Some counts_only_cov \<rparr>" counts_only_cov 0 0]
  by (simp add: counts_only_cov_def dict_get_simps)

section \<open>Reports\<close>

text \<open>On the sample inputs both reports are returned as text.\<close>

lemma sample_reports_returned:
  "\<exists>s. generate_text_report sample_generator = Inr s"
  "\<exists>s. generate_html_report sample_generator = Inr s"
  by (simp_all add: generate_text_report_def generate_html_report_def sample_generator_def
      calculate_weighted_quality_score_def calculate_reliability_score_def
      calculate_maintainability_score_def calculate_performance_score_def
      sample_calc_def sample_run_def sample_cov_def py_not_def dict_get_simps Let_def
      DBL_LIMIT_def
      PERFORMANCE_THRESHOLD_def WEIGHT_RELIABILITY_def WEIGHT_MAINTAINABILITY_def
      WEIGHT_PERFORMANCE_def get_rating_cases RATING_COLORS_def
      text_report_lines_def bind_err_def dict_item_def fault_density_lines_def)


text \<open>
  Claim C9. The claim asks that two calls of a report method return byte-identical
  strings. With the sample run loaded and no coverage data, and likewise with no data at
  all, neither method returns a string: the detail dictionary of a scorer that took its
  no-data branch has no \<open>formula\<close> entry (nor \<open>standard\<close> or \<open>calculation\<close>), and reading
  it raises KeyError, in every call.
\<close>

theorem reports_raise_key_error:
  "generate_text_report run_only_generator = Inl KeyError \<and>
   generate_html_report run_only_generator = Inl KeyError \<and>
   generate_text_report empty_generator = Inl KeyError \<and>
   generate_html_report empty_generator = Inl KeyError"
proof -
  have run: "performance_divisions_fit sample_run"
    by (rule sample_run_fits)
  show ?thesis
    by (simp add: generate_text_report_def generate_html_report_def
      run_only_generator_def empty_generator_def sample_run_def
      calculate_weighted_quality_score_def calculate_reliability_score_def
      calculate_maintainability_score_def calculate_performance_score_def
      py_not_def dict_get_simps Let_def DBL_LIMIT_def PERFORMANCE_THRESHOLD_def
      WEIGHT_RELIABILITY_def WEIGHT_MAINTAINABILITY_def
      WEIGHT_PERFORMANCE_def get_rating_cases RATING_COLORS_def
      text_report_lines_def bind_err_def dict_item_def fault_density_lines_def)
qed

end
